theory Spec2Isabelle
  imports Complex_Main "HOL-Library.Word" "HOL-Library.Sublist" "HOL-Library.Log_Nat"
begin

section \<open>Common types\<close>

text \<open>
  Go's fixed-width integers are words; \<open>int64(x)\<close> of a \<open>uint64\<close> keeps the 64 bits and
  reads them as two's complement (\<open>sint\<close>). A Go string and a byte slice are both byte
  sequences; a \<open>nil\<close> slice is the empty sequence.
\<close>

type_synonym uint32 = "32 word"
type_synonym uint64 = "64 word"
type_synonym int64 = "64 word"
type_synonym bytes = string

text \<open>
  Go errors. \<open>ErrNotFound\<close> is the sentinel \<open>leveldb.ErrNotFound\<close>; \<open>External\<close> is an error
  value handed back by a collaborator (RPC client, codec, key ring, store backend), with its
  message; \<open>Errorf\<close> is \<open>fmt.Errorf\<close> without \<open>%w\<close>, holding the formatted message;
  \<open>Wrapf p e\<close> is \<open>fmt.Errorf(p + "%w", e)\<close>. \<open>Panic\<close> stands for a run-time panic (the
  call does not return).
\<close>

datatype error =
    ErrNotFound
  | External string
  | Errorf string
  | Wrapf string error
  | Panic string

fun Error :: "error \<Rightarrow> string" where
  "Error ErrNotFound = ''leveldb: not found''"
| "Error (External msg) = msg"
| "Error (Errorf msg) = msg"
| "Error (Wrapf p e) = p @ Error e"
| "Error (Panic msg) = msg"

text \<open>Whether \<open>leveldb.ErrNotFound\<close> is the error or is wrapped in it (\<open>errors.Is\<close>).\<close>

fun IsNotFound :: "error \<Rightarrow> bool" where
  "IsNotFound ErrNotFound = True"
| "IsNotFound (Wrapf p e) = IsNotFound e"
| "IsNotFound e = False"

text \<open>
  A \<open>context.Context\<close>: \<open>context.Background()\<close> can never be cancelled; a context derived
  with a cancel function carries whether its \<open>Done\<close> channel has been closed.
\<close>

datatype Context = Background | WithCancel bool

fun Done :: "Context \<Rightarrow> bool" where
  "Done Background = False"
| "Done (WithCancel cancelled) = cancelled"

section \<open>internal/relay/relayer.go\<close>

subsection \<open>The Height Store\<close>

text \<open>
  Modelled from the spec: the implementation behind the \<open>Storage\<close> interface is not part
  of the sources. The spec gives it as \<open>get(queryId) -> (height, found)\<close>,
  \<open>set(queryId, height) -> error\<close>, \<open>close() -> error\<close>, an exact-match lookup with
  atomic point writes, where "not found" is a distinguished condition. \<open>heights\<close> is the
  persisted mapping, \<open>writes\<close> the successful point writes in the order they were made;
  \<open>read_fault\<close>, \<open>write_fault\<close> and \<open>close_fault\<close> are the failure the backend reports
  for a read, a write or a close, if it is failing; a failure is never "not found", which
  is reported exactly for an absent key.
\<close>

record Storage =
  heights :: "uint64 \<rightharpoonup> uint64"
  writes :: "(uint64 \<times> uint64) list"
  closed :: bool
  read_fault :: "string option"
  write_fault :: "string option"
  close_fault :: "string option"

definition GetLastQueryHeight :: "Storage \<Rightarrow> uint64 \<Rightarrow> error + uint64" where
  "GetLastQueryHeight s queryID =
     (case read_fault s of
        Some msg \<Rightarrow> Inl (External msg)
      | None \<Rightarrow>
          (case heights s queryID of
             None \<Rightarrow> Inl ErrNotFound
           | Some height \<Rightarrow> Inr height))"

definition SetLastQueryHeight :: "Storage \<Rightarrow> uint64 \<Rightarrow> uint64 \<Rightarrow> error option \<times> Storage" where
  "SetLastQueryHeight s queryID height =
     (case write_fault s of
        Some msg \<Rightarrow> (Some (External msg), s)
      | None \<Rightarrow>
          (None, s\<lparr>heights := (heights s)(queryID \<mapsto> height),
                   writes := writes s @ [(queryID, height)]\<rparr>))"

definition Close :: "Storage \<Rightarrow> error option \<times> Storage" where
  "Close s =
     (case close_fault s of
        Some msg \<Rightarrow> (Some (External msg), s)
      | None \<Rightarrow> (None, s\<lparr>closed := True\<rparr>))"

subsection \<open>Messages and collaborators\<close>

text \<open>
  \<open>TransactionsFilterItem.Value\<close> is an \<open>interface{}\<close>: the relayer stores a \<open>uint64\<close> in
  it; an item decoded from the filter's JSON holds the decoded value, kept here as its text.
\<close>

datatype filter_value = Uint64Value uint64 | JSONValue string

record TransactionsFilterItem =
  Field :: string
  Op :: string
  Value :: filter_value

type_synonym TransactionsFilter = "TransactionsFilterItem list"

record MessageTX =
  QueryId :: uint64
  TransactionsFilter :: string

record MessageKV =
  KVQueryId :: uint64
  KVKeys :: "(string \<times> bytes) list"

record RegisteredQuery =
  Id :: uint64
  QueryType :: string
  Keys :: "(string \<times> bytes) list"
  QueryTransactionsFilter :: string

record Transaction =
  Height :: uint64
  Tx :: bytes

text \<open>
  The relayer's collaborators are interfaces (\<open>TXQuerier\<close>, \<open>TXProcessor\<close>,
  \<open>KVProcessor\<close>) and \<open>json.Unmarshal\<close>. \<open>SearchTransactions\<close> gives the transactions
  its channel delivers together with what \<open>Err()\<close> reports once the channel is drained.
  Logging and metrics are write-only and left out.
\<close>

record Relayer =
  jsonUnmarshal :: "string \<Rightarrow> error + TransactionsFilter"
  SearchTransactions :: "Context \<Rightarrow> TransactionsFilter \<Rightarrow> Transaction list \<times> error option"
  TxProcessAndSubmit :: "Context \<Rightarrow> uint64 \<Rightarrow> Transaction list \<Rightarrow> error + uint64"
  KvProcessAndSubmit :: "Context \<Rightarrow> MessageKV \<Rightarrow> error option"

definition TxHeight :: string where
  "TxHeight = ''tx.height''"

definition InterchainQueryTypeKV :: string where
  "InterchainQueryTypeKV = ''kv''"

definition InterchainQueryTypeTX :: string where
  "InterchainQueryTypeTX = ''tx''"

subsection \<open>getLastQueryHeight, buildTxQuery, processMessageTX\<close>

definition getLastQueryHeight :: "Storage \<Rightarrow> uint64 \<Rightarrow> (error + uint64) \<times> Storage" where
  "getLastQueryHeight s queryID =
     (case GetLastQueryHeight s queryID of
        Inl err \<Rightarrow>
          if err = ErrNotFound then
            (case SetLastQueryHeight s queryID 0 of
               (Some err', s') \<Rightarrow>
                 (Inl (Wrapf ''failed to set a 0 last height for an unitilialised query: '' err'), s')
             | (None, s') \<Rightarrow> (Inr 0, s'))
          else (Inl (Wrapf ''failed to check query in storage: '' err), s)
      | Inr height \<Rightarrow> (Inr height, s))"

definition buildTxQuery :: "Relayer \<Rightarrow> MessageTX \<Rightarrow> Storage \<Rightarrow> (error + TransactionsFilter) \<times> Storage" where
  "buildTxQuery r m s =
     (case getLastQueryHeight s (QueryId m) of
        (Inl err, s') \<Rightarrow> (Inl (Wrapf ''could not get last query height: '' err), s')
      | (Inr queryLastHeight, s') \<Rightarrow>
          (case jsonUnmarshal r (TransactionsFilter m) of
             Inl err \<Rightarrow> (Inl (Wrapf ''could not unmarshal transactions filter: '' err), s')
           | Inr params \<Rightarrow>
               (Inr (params @ [\<lparr>Field = TxHeight, Op = ''gt'',
                                 Value = Uint64Value queryLastHeight\<rparr>]), s')))"

definition processMessageTX :: "Relayer \<Rightarrow> Context \<Rightarrow> MessageTX \<Rightarrow> Storage \<Rightarrow> error option \<times> Storage" where
  "processMessageTX r ctx m s =
     (case buildTxQuery r m s of
        (Inl err, s1) \<Rightarrow> (Some (Wrapf ''failed to build tx query params: '' err), s1)
      | (Inr queryParams, s1) \<Rightarrow>
          (case SearchTransactions r ctx queryParams of
             (txs, querierErr) \<Rightarrow>
               (case TxProcessAndSubmit r ctx (QueryId m) txs of
                  Inl err \<Rightarrow> (Some (Wrapf ''failed to process txs: '' err), s1)
                | Inr lastProcessedHeight \<Rightarrow>
                    (case querierErr of
                       Some qerr \<Rightarrow> (Some (Wrapf ''failed to query txs: '' qerr), s1)
                     | None \<Rightarrow>
                         (case SetLastQueryHeight s1 (QueryId m) lastProcessedHeight of
                            (Some err, s2) \<Rightarrow>
                              (Some (Wrapf ''failed to save last height of query: '' err), s2)
                          | (None, s2) \<Rightarrow> (None, s2))))))"

definition processMessageKV :: "Relayer \<Rightarrow> Context \<Rightarrow> MessageKV \<Rightarrow> error option" where
  "processMessageKV r ctx m = KvProcessAndSubmit r ctx m"

subsection \<open>Run and stop\<close>

definition stop :: "Storage \<Rightarrow> error option \<times> Storage" where
  "stop s =
     (case Close s of
        (Some err, s') \<Rightarrow>
          (Some (Errorf ''error occurred while stopping relayer, see recent logs for more info''), s')
      | (None, s') \<Rightarrow> (None, s'))"

text \<open>
  The body of the \<open>default\<close> branch of \<open>Run\<close> for a dequeued query: the switch on the
  query type. The KV case passes \<open>ctx\<close> on, the TX case passes \<open>context.Background()\<close>.
  A type that is neither \<open>kv\<close> nor \<open>tx\<close> matches no case and leaves \<open>err\<close> nil.
\<close>

definition dispatch :: "Relayer \<Rightarrow> Context \<Rightarrow> RegisteredQuery \<Rightarrow> Storage \<Rightarrow> error option \<times> Storage" where
  "dispatch r ctx query s =
     (if QueryType query = InterchainQueryTypeKV then
        (processMessageKV r ctx \<lparr>KVQueryId = Id query, KVKeys = Keys query\<rparr>, s)
      else if QueryType query = InterchainQueryTypeTX then
        processMessageTX r Background
          \<lparr>QueryId = Id query, TransactionsFilter = QueryTransactionsFilter query\<rparr> s
      else (None, s))"

text \<open>
  One turn of the loop of \<open>Run\<close>. The \<open>select\<close> takes the \<open>ctx.Done()\<close> case when the
  context is cancelled and the \<open>default\<close> case otherwise; an empty queue continues the loop.
  The state is the task queue (front first), the store, and the outcomes handed to the
  metrics so far. The checker started with \<open>go\<close> runs beside the loop and is not part of it.
\<close>

record RunState =
  tasks :: "RegisteredQuery list"
  storage :: Storage
  outcomes :: "error option list"

datatype RunStep = Continue RunState | Returned "error option" RunState

definition Run_step :: "Relayer \<Rightarrow> Context \<Rightarrow> RunState \<Rightarrow> RunStep" where
  "Run_step r ctx st =
     (if Done ctx then
        (case stop (storage st) of (err, s') \<Rightarrow> Returned err (st\<lparr>storage := s'\<rparr>))
      else
        (case tasks st of
           [] \<Rightarrow> Continue st
         | query # rest \<Rightarrow>
             (case dispatch r ctx query (storage st) of
                (err, s') \<Rightarrow>
                  Continue (st\<lparr>tasks := rest, storage := s', outcomes := outcomes st @ [err]\<rparr>))))"

section \<open>internal/submit/tx_sender.go\<close>

subsection \<open>float64\<close>

text \<open>
  A finite \<open>float64\<close> is \<open>Float64 m e\<close>, the number \<open>m * 2^e\<close>. An operation gives
  the exact result rounded to a significand of 53 bits, ties to even. The exponent is not
  bounded here (no overflow to infinity, no subnormal numbers), and NaN and the infinities
  are not values of the model.
\<close>

datatype float64 = Float64 int int

fun float64_val :: "float64 \<Rightarrow> real" where
  "float64_val (Float64 m e) = of_int m * 2 powi e"

definition round_float64 :: "int \<Rightarrow> int \<Rightarrow> float64" where
  "round_float64 m e =
     (if \<bar>m\<bar> < 2 ^ 53 then Float64 m e
      else
        (let k = nat (bitlen \<bar>m\<bar> - 53);
             q = \<bar>m\<bar> div 2 ^ k;
             r = \<bar>m\<bar> mod 2 ^ k;
             q' = (if 2 ^ k < 2 * r \<or> (2 * r = 2 ^ k \<and> odd q) then q + 1 else q)
         in Float64 (sgn m * q') (e + int k)))"

text \<open>The conversion \<open>float64(x)\<close> of a \<open>uint64\<close>.\<close>

definition float64_of_uint64 :: "uint64 \<Rightarrow> float64" where
  "float64_of_uint64 x = round_float64 (uint x) 0"

fun float64_mul :: "float64 \<Rightarrow> float64 \<Rightarrow> float64" where
  "float64_mul (Float64 m1 e1) (Float64 m2 e2) = round_float64 (m1 * m2) (e1 + e2)"

text \<open>
  The conversion \<open>uint64(f)\<close> discards the fraction (truncation towards zero). When the
  truncated value is not a \<open>uint64\<close>, Go leaves the result to the implementation: it is the
  parameter \<open>unrepresentable\<close>.
\<close>

fun truncate_float64 :: "float64 \<Rightarrow> int" where
  "truncate_float64 (Float64 m e) =
     (if 0 \<le> e then m * 2 ^ nat e else sgn m * (\<bar>m\<bar> div 2 ^ nat (- e)))"

definition uint64_of_float64 :: "(float64 \<Rightarrow> uint64) \<Rightarrow> float64 \<Rightarrow> uint64" where
  "uint64_of_float64 unrepresentable f =
     (let t = truncate_float64 f
      in if 0 \<le> t \<and> t < 2 ^ 64 then word_of_int t else unrepresentable f)"

subsection \<open>Formatting\<close>

text \<open>The verb \<open>%d\<close> of an unsigned integer.\<close>

fun decimal :: "nat \<Rightarrow> string" where
  "decimal n =
     (if n < 10 then [char_of (48 + n)]
      else decimal (n div 10) @ [char_of (48 + n mod 10)])"

subsection \<open>Data\<close>

type_synonym Msg = bytes

datatype SignMode =
    SIGN_MODE_UNSPECIFIED
  | SIGN_MODE_DIRECT
  | SIGN_MODE_TEXTUAL
  | SIGN_MODE_LEGACY_AMINO_JSON

definition mode :: SignMode where
  "mode = SIGN_MODE_DIRECT"

text \<open>
  \<open>config.TxBroadcastType\<close> is a string type with three named constants;
  \<open>OtherBroadcastType s\<close> is any other string \<open>s\<close>.
\<close>

datatype TxBroadcastType =
    BroadcastTxSync
  | BroadcastTxAsync
  | BroadcastTxCommit
  | OtherBroadcastType string

fun TxBroadcastType_string :: "TxBroadcastType \<Rightarrow> string" where
  "TxBroadcastType_string BroadcastTxSync = ''Sync''"
| "TxBroadcastType_string BroadcastTxAsync = ''Async''"
| "TxBroadcastType_string BroadcastTxCommit = ''Commit''"
| "TxBroadcastType_string (OtherBroadcastType s) = s"

text \<open>The fields of \<open>tx.Factory\<close> that the sender sets or reads.\<close>

record Factory =
  txf_chainID :: string
  txf_signMode :: SignMode
  txf_gasAdjustment :: float64
  txf_gasPrices :: string
  txf_accountNumber :: uint64
  txf_sequence :: uint64
  txf_gas :: uint64

record BaseAccount =
  AccountNumber :: uint64
  Sequence :: uint64

record SignatureV2 =
  PubKey :: bytes
  DataSignMode :: SignMode
  SigSequence :: uint64

text \<open>
  \<open>ResponseBase\<close> holds the two fields that \<open>Send\<close> reads of a \<open>ResultBroadcastTx\<close>,
  a \<open>ResponseCheckTx\<close> and a \<open>ResponseDeliverTx\<close>; the ABCI \<open>ResponseQuery\<close> adds the
  value.
\<close>

record ResponseBase =
  Code :: uint32
  Log :: string

record ResponseQuery = ResponseBase +
  QueryValue :: bytes

record ResultBroadcastTxCommit =
  CheckTx :: ResponseBase
  DeliverTx :: ResponseBase

record GasInfo =
  GasUsed :: uint64

record SimulateResponse =
  GasInfo :: "GasInfo option"

record RPCClient =
  ABCIQueryWithOptions :: "Context \<Rightarrow> string \<Rightarrow> bytes \<Rightarrow> error + ResponseQuery"
  BroadcastTxSync_rpc :: "Context \<Rightarrow> bytes \<Rightarrow> error + ResponseBase"
  BroadcastTxAsync_rpc :: "Context \<Rightarrow> bytes \<Rightarrow> error + ResponseBase"
  BroadcastTxCommit_rpc :: "Context \<Rightarrow> bytes \<Rightarrow> error + ResultBroadcastTxCommit"

text \<open>
  The functions of the Cosmos SDK and of the protobuf codec that the sender calls, over a
  transaction builder of type \<open>'txb\<close>. \<open>UnmarshalQueryAccountResponse\<close> gives the bytes of
  the \<open>Account\<close> field, \<open>None\<close> when the field is nil. \<open>TxEncoder\<close> is
  \<open>txConfig.TxEncoder()\<close> applied to the builder's transaction.
\<close>

record 'txb SDK =
  MarshalQueryAccountRequest :: "string \<Rightarrow> error + bytes"
  UnmarshalQueryAccountResponse :: "bytes \<Rightarrow> error + bytes option"
  UnmarshalBaseAccount :: "bytes \<Rightarrow> error + BaseAccount"
  BuildUnsignedTx :: "Factory \<Rightarrow> Msg list \<Rightarrow> error + 'txb"
  SetSignatures :: "'txb \<Rightarrow> SignatureV2 \<Rightarrow> error + 'txb"
  Sign :: "Factory \<Rightarrow> string \<Rightarrow> 'txb \<Rightarrow> error + 'txb"
  TxEncoder :: "'txb \<Rightarrow> error + bytes"
  MarshalSimulateRequest :: "bytes \<Rightarrow> error + bytes"
  UnmarshalSimulateResponse :: "bytes \<Rightarrow> error + SimulateResponse"
  unrepresentable_uint64 :: "float64 \<Rightarrow> uint64"

record LidoChainConfig =
  ChainID :: string
  ChainPrefix :: string
  GasAdjustment :: float64
  GasPrices :: string
  SignKeyName :: string
  ConfigTxBroadcastType :: TxBroadcastType

record 'txb TxSender =
  baseTxf :: Factory
  sdk :: "'txb SDK"
  rpcClient :: RPCClient
  chainID :: string
  addressPrefix :: string
  signKeyName :: string
  gasPrices :: string
  txBroadcastType :: TxBroadcastType

subsection \<open>NewTxSender\<close>

definition NewTxSender :: "RPCClient \<Rightarrow> 'txb SDK \<Rightarrow> LidoChainConfig \<Rightarrow> error + 'txb TxSender" where
  "NewTxSender rpc lib cfg =
     Inr \<lparr>baseTxf = \<lparr>txf_chainID = ChainID cfg, txf_signMode = mode,
                       txf_gasAdjustment = GasAdjustment cfg, txf_gasPrices = GasPrices cfg,
                       txf_accountNumber = 0, txf_sequence = 0, txf_gas = 0\<rparr>,
          sdk = lib,
          rpcClient = rpc,
          chainID = ChainID cfg,
          addressPrefix = ChainPrefix cfg,
          signKeyName = SignKeyName cfg,
          gasPrices = GasPrices cfg,
          txBroadcastType = ConfigTxBroadcastType cfg\<rparr>"

subsection \<open>queryAccount, buildTxBz\<close>

definition queryAccount :: "'txb TxSender \<Rightarrow> Context \<Rightarrow> string \<Rightarrow> error + BaseAccount" where
  "queryAccount cc ctx address =
     (case MarshalQueryAccountRequest (sdk cc) address of
        Inl err \<Rightarrow> Inl err
      | Inr req \<Rightarrow>
          (case ABCIQueryWithOptions (rpcClient cc) ctx ''/cosmos.auth.v1beta1.Query/Account'' req of
             Inl err \<Rightarrow> Inl err
           | Inr res \<Rightarrow>
               if Code res \<noteq> 0 then
                 Inl (Errorf (''error fetching account with address='' @ address @ '' log='' @ Log res))
               else
                 (case UnmarshalQueryAccountResponse (sdk cc) (QueryValue res) of
                    Inl err \<Rightarrow> Inl err
                  | Inr None \<Rightarrow> Inl (Panic ''invalid memory address or nil pointer dereference'')
                  | Inr (Some accountValue) \<Rightarrow>
                      (case UnmarshalBaseAccount (sdk cc) accountValue of
                         Inl err \<Rightarrow> Inl err
                       | Inr account \<Rightarrow> Inr account))))"

definition buildTxBz :: "'txb TxSender \<Rightarrow> Factory \<Rightarrow> Msg list \<Rightarrow> error + bytes" where
  "buildTxBz cc txf msgs =
     (case BuildUnsignedTx (sdk cc) txf msgs of
        Inl err \<Rightarrow> Inl (Wrapf ''failed to build transaction builder: '' err)
      | Inr txBuilder \<Rightarrow>
          (case Sign (sdk cc) txf (signKeyName cc) txBuilder of
             Inl err \<Rightarrow> Inl err
           | Inr signedTx \<Rightarrow> TxEncoder (sdk cc) signedTx))"

subsection \<open>buildSimulationTx, calculateGas\<close>

text \<open>
  \<open>buildSimulationTx\<close> builds from \<open>cc.baseTxf\<close> and takes only the sequence from
  \<open>txf\<close>. When the encoder fails it returns \<open>nil, nil\<close>.
\<close>

definition buildSimulationTx :: "'txb TxSender \<Rightarrow> Factory \<Rightarrow> Msg list \<Rightarrow> error + bytes" where
  "buildSimulationTx cc txf msgs =
     (case BuildUnsignedTx (sdk cc) (baseTxf cc) msgs of
        Inl err \<Rightarrow> Inl err
      | Inr txb \<Rightarrow>
          (case SetSignatures (sdk cc) txb
                  \<lparr>PubKey = [], DataSignMode = txf_signMode (baseTxf cc),
                   SigSequence = txf_sequence txf\<rparr> of
             Inl err \<Rightarrow> Inl err
           | Inr txb' \<Rightarrow>
               (case TxEncoder (sdk cc) txb' of
                  Inl err \<Rightarrow> Inr []
                | Inr bz \<Rightarrow> MarshalSimulateRequest (sdk cc) bz)))"

definition calculateGas :: "'txb TxSender \<Rightarrow> Context \<Rightarrow> Factory \<Rightarrow> Msg list \<Rightarrow> error + uint64" where
  "calculateGas cc ctx txf msgs =
     (case buildSimulationTx cc txf msgs of
        Inl err \<Rightarrow> Inl err
      | Inr simulation \<Rightarrow>
          (case ABCIQueryWithOptions (rpcClient cc) ctx ''/cosmos.tx.v1beta1.Service/Simulate'' simulation of
             Inl err \<Rightarrow> Inl err
           | Inr res \<Rightarrow>
               (case UnmarshalSimulateResponse (sdk cc) (QueryValue res) of
                  Inl err \<Rightarrow> Inl err
                | Inr simRes \<Rightarrow>
                    (case GasInfo simRes of
                       None \<Rightarrow>
                         Inl (Errorf (''no result in simulation response with log='' @ Log res
                                      @ '' code='' @ decimal (unat (Code res))))
                     | Some gasInfo \<Rightarrow>
                         Inr (uint64_of_float64 (unrepresentable_uint64 (sdk cc))
                                (float64_mul (txf_gasAdjustment txf)
                                   (float64_of_uint64 (GasUsed gasInfo))))))))"

subsection \<open>Send\<close>

definition Send :: "'txb TxSender \<Rightarrow> Context \<Rightarrow> string \<Rightarrow> Msg list \<Rightarrow> error option" where
  "Send cc ctx sender msgs =
     (case queryAccount cc ctx sender of
        Inl err \<Rightarrow> Some err
      | Inr account \<Rightarrow>
          (let txf = (baseTxf cc)\<lparr>txf_accountNumber := AccountNumber account,
                                   txf_sequence := Sequence account\<rparr>
           in case calculateGas cc ctx txf msgs of
                Inl err \<Rightarrow> Some err
              | Inr gasNeeded \<Rightarrow>
                  (let txf' = txf\<lparr>txf_gas := gasNeeded, txf_gasPrices := gasPrices cc\<rparr>
                   in case buildTxBz cc txf' msgs of
                        Inl err \<Rightarrow> Some (Wrapf ''could not build tx bz: '' err)
                      | Inr bz \<Rightarrow>
                          (case txBroadcastType cc of
                             BroadcastTxSync \<Rightarrow>
                               (case BroadcastTxSync_rpc (rpcClient cc) ctx bz of
                                  Inl err \<Rightarrow> Some (Wrapf ''error broadcasting sync transaction: '' err)
                                | Inr res \<Rightarrow>
                                    if Code res = 0 then None
                                    else Some (Errorf (''error broadcasting sync transaction with log=''
                                                       @ Log res)))
                           | BroadcastTxAsync \<Rightarrow>
                               (case BroadcastTxAsync_rpc (rpcClient cc) ctx bz of
                                  Inl err \<Rightarrow> Some (Wrapf ''error broadcasting async transaction: '' err)
                                | Inr res \<Rightarrow>
                                    if Code res = 0 then None
                                    else Some (Errorf (''error broadcasting async transaction with log=''
                                                       @ Log res)))
                           | BroadcastTxCommit \<Rightarrow>
                               (case BroadcastTxCommit_rpc (rpcClient cc) ctx bz of
                                  Inl err \<Rightarrow> Some (Wrapf ''error broadcasting commit transaction: '' err)
                                | Inr res \<Rightarrow>
                                    if Code (CheckTx res) = 0 \<and> Code (DeliverTx res) = 0 then None
                                    else Some (Errorf
                                      (''error broadcasting commit transaction with checktx log=''
                                       @ Log (CheckTx res) @ '' and deliverytx log=''
                                       @ Log (DeliverTx res))))
                           | OtherBroadcastType s \<Rightarrow>
                               Some (Errorf (''not implemented transaction send type: ''
                                             @ TxBroadcastType_string (txBroadcastType cc)))))))"

section \<open>Proofs of balances: GetBalance\<close>

type_synonym ProofOp = bytes

record StorageValue =
  StoragePrefix :: string
  Key :: bytes
  ProvenValue :: bytes
  Proofs :: "ProofOp list"

text \<open>
  Modelled from the spec: the Chain Reader behind \<open>p.querier\<close>
  (\<open>QueryTendermintProof\<close>), which is not part of the sources. The spec has it take a
  height, 0 meaning "latest" and any other height meaning exactly that height, and return
  the value bytes, the proof path and the height actually served; a failure of the RPC, a
  non-zero response code and a malformed response are errors. \<open>store_at\<close> is the
  node's answer to a proved query of a store key at an exact height, \<open>latest_height\<close>
  the height the node serves for "latest".
\<close>

record Chain =
  latest_height :: int64
  store_at :: "Context \<Rightarrow> int64 \<Rightarrow> string \<Rightarrow> bytes \<Rightarrow> error + bytes \<times> ProofOp list"

definition QueryTendermintProof ::
  "Chain \<Rightarrow> Context \<Rightarrow> int64 \<Rightarrow> string \<Rightarrow> bytes \<Rightarrow> error + StorageValue \<times> uint64" where
  "QueryTendermintProof chain ctx height storeKey key =
     (let served = (if height = 0 then latest_height chain else height)
      in case store_at chain ctx served storeKey key of
           Inl err \<Rightarrow> Inl err
         | Inr (val, ops) \<Rightarrow>
             Inr (\<lparr>StoragePrefix = storeKey, Key = key, ProvenValue = val, Proofs = ops\<rparr>, served))"

text \<open>
  The proofer with the two functions of the Cosmos SDK that \<open>GetBalance\<close> calls:
  \<open>sdk.GetFromBech32\<close> (address, then prefix) and
  \<open>banktypes.CreateAccountBalancesPrefix\<close>. \<open>StoreKey\<close> is \<open>banktypes.StoreKey\<close>.
\<close>

record ProoferImpl =
  querier :: Chain
  GetFromBech32 :: "string \<Rightarrow> string \<Rightarrow> error + bytes"
  CreateAccountBalancesPrefix :: "bytes \<Rightarrow> bytes"

definition StoreKey :: string where
  "StoreKey = ''bank''"

definition GetBalance ::
  "ProoferImpl \<Rightarrow> Context \<Rightarrow> uint64 \<Rightarrow> string \<Rightarrow> string \<Rightarrow> string
     \<Rightarrow> error + StorageValue list \<times> uint64" where
  "GetBalance p ctx inputHeight chainPrefix addr denom =
     (case GetFromBech32 p addr chainPrefix of
        Inl err \<Rightarrow> Inl err
      | Inr bytesAddress \<Rightarrow>
          (let key = CreateAccountBalancesPrefix p bytesAddress @ denom
           in case QueryTendermintProof (querier p) ctx inputHeight StoreKey key of
                Inl err \<Rightarrow> Inl (Wrapf ''failed to query tendermint proof for balances: '' err)
              | Inr (value, height) \<Rightarrow> Inr ([value], height)))"

section \<open>Example inputs\<close>

definition empty_store :: Storage where
  "empty_store = \<lparr>heights = Map.empty, writes = [], closed = False,
                   read_fault = None, write_fault = None, close_fault = None\<rparr>"

definition dq :: string where
  "dq = [CHR 0x22]"

definition transfer_filter_json :: string where
  "transfer_filter_json =
     ''[{'' @ dq @ ''field'' @ dq @ '':'' @ dq @ ''message.action'' @ dq @ '','' @
     dq @ ''op'' @ dq @ '':'' @ dq @ ''eq'' @ dq @ '','' @
     dq @ ''value'' @ dq @ '':'' @ dq @ ''transfer'' @ dq @ ''}]''"

definition transfer_filter :: TransactionsFilter where
  "transfer_filter = [\<lparr>Field = ''message.action'', Op = ''eq'', Value = JSONValue ''transfer''\<rparr>]"

text \<open>
  A relayer whose collaborators honour cancellation, find one transaction at height 7 and
  report \<open>submitErr\<close> (if any) from the submission.
\<close>

definition example_relayer :: "error option \<Rightarrow> Relayer" where
  "example_relayer submitErr =
     \<lparr>jsonUnmarshal = (\<lambda>txt. if txt = transfer_filter_json then Inr transfer_filter
                              else Inl (External ''invalid character'')),
      SearchTransactions = (\<lambda>ctx f. if Done ctx then ([], Some (External ''context canceled''))
                                     else ([\<lparr>Height = 7, Tx = ''tx7''\<rparr>], None)),
      TxProcessAndSubmit = (\<lambda>ctx queryId txs.
         if Done ctx then Inl (External ''context canceled'')
         else (case submitErr of Some e \<Rightarrow> Inl e | None \<Rightarrow> Inr (foldr max (map Height txs) 0))),
      KvProcessAndSubmit = (\<lambda>ctx m. if Done ctx then Some (External ''context canceled'') else submitErr)\<rparr>"

definition transfer_message :: MessageTX where
  "transfer_message = \<lparr>QueryId = 1, TransactionsFilter = transfer_filter_json\<rparr>"

definition insufficient_fees :: error where
  "insufficient_fees = Errorf ''error broadcasting sync transaction with log=insufficient fees''"

text \<open>The queries of the dispatch examples: one of each type, for query ID 1.\<close>

definition kv_query :: RegisteredQuery where
  "kv_query = \<lparr>Id = 1, QueryType = ''kv'', Keys = [(''bank'', ''key'')], QueryTransactionsFilter = []\<rparr>"

definition tx_query :: RegisteredQuery where
  "tx_query = \<lparr>Id = 1, QueryType = ''tx'', Keys = [], QueryTransactionsFilter = transfer_filter_json\<rparr>"

text \<open>
  A sender over stub SDK functions: the builder is the concatenated messages, signing and
  encoding leave it as it is (the encoder fails when \<open>encoderFails\<close>), and the node
  simulates 3 gas units for every transaction. The simulation answers with response code
  \<open>simulateCode\<close>; a broadcast answers \<open>checkTx\<close> (and \<open>deliverTx\<close> in commit mode).
  The gas adjustment is 1.5.
\<close>

definition example_sdk :: "bool \<Rightarrow> string SDK" where
  "example_sdk encoderFails =
     \<lparr>MarshalQueryAccountRequest = Inr,
      UnmarshalQueryAccountResponse = (\<lambda>v. Inr (Some v)),
      UnmarshalBaseAccount = (\<lambda>v. Inr \<lparr>AccountNumber = 11, Sequence = 4\<rparr>),
      BuildUnsignedTx = (\<lambda>txf msgs. Inr (concat msgs)),
      SetSignatures = (\<lambda>txb sig. Inr txb),
      Sign = (\<lambda>txf keyName txb. Inr txb),
      TxEncoder = (\<lambda>txb. if encoderFails then Inl (External ''cannot encode'') else Inr txb),
      MarshalSimulateRequest = Inr,
      UnmarshalSimulateResponse =
        (\<lambda>v. Inr \<lparr>GasInfo = (if v = ''gas_used:3'' then Some \<lparr>GasUsed = 3\<rparr> else None)\<rparr>),
      unrepresentable_uint64 = (\<lambda>f. 0x8000000000000000)\<rparr>"

definition example_rpc :: "uint32 \<Rightarrow> ResponseBase \<Rightarrow> ResponseBase \<Rightarrow> RPCClient" where
  "example_rpc simulateCode checkTx deliverTx =
     \<lparr>ABCIQueryWithOptions = (\<lambda>ctx path data.
         if path = ''/cosmos.tx.v1beta1.Service/Simulate''
         then Inr \<lparr>Code = simulateCode, Log = ''simulated'', QueryValue = ''gas_used:3''\<rparr>
         else Inr \<lparr>Code = 0, Log = [], QueryValue = ''account''\<rparr>),
      BroadcastTxSync_rpc = (\<lambda>ctx bz. Inr checkTx),
      BroadcastTxAsync_rpc = (\<lambda>ctx bz. Inr checkTx),
      BroadcastTxCommit_rpc = (\<lambda>ctx bz. Inr \<lparr>CheckTx = checkTx, DeliverTx = deliverTx\<rparr>)\<rparr>"

definition example_config :: "TxBroadcastType \<Rightarrow> LidoChainConfig" where
  "example_config broadcastType =
     \<lparr>ChainID = ''test-1'', ChainPrefix = ''neutron'', GasAdjustment = Float64 3 (- 1),
      GasPrices = ''0.5stake'', SignKeyName = ''relayer'', ConfigTxBroadcastType = broadcastType\<rparr>"

definition ok_response :: ResponseBase where
  "ok_response = \<lparr>Code = 0, Log = []\<rparr>"

definition insufficient_fees_response :: ResponseBase where
  "insufficient_fees_response = \<lparr>Code = 5, Log = ''insufficient fees''\<rparr>"

definition example_sender :: "TxBroadcastType \<Rightarrow> uint32 \<Rightarrow> ResponseBase \<Rightarrow> ResponseBase \<Rightarrow> bool \<Rightarrow> string TxSender" where
  "example_sender broadcastType simulateCode checkTx deliverTx encoderFails =
     projr (NewTxSender (example_rpc simulateCode checkTx deliverTx) (example_sdk encoderFails)
              (example_config broadcastType))"

definition example_account :: BaseAccount where
  "example_account = \<lparr>AccountNumber = 11, Sequence = 4\<rparr>"

text \<open>
  A proofer whose node is at height 250 and whose address decoder knows one address of
  prefix \<open>neutron\<close>, with the bytes 00 01 02 03.
\<close>

definition example_chain :: Chain where
  "example_chain =
     \<lparr>latest_height = 250,
      store_at = (\<lambda>ctx h storeKey key.
         if 250 < h then Inl (External ''height is in the future'')
         else Inr (''17token'', [''ics23:iavl'', ''ics23:simple'']))\<rparr>"

definition example_proofer :: ProoferImpl where
  "example_proofer =
     \<lparr>querier = example_chain,
      GetFromBech32 = (\<lambda>addr prefix.
         if addr = ''neutron1qqqsyqcvhcmcm'' \<and> prefix = ''neutron''
         then Inr [CHR 0x00, CHR 0x01, CHR 0x02, CHR 0x03]
         else Inl (External ''decoding bech32 failed'')),
      CreateAccountBalancesPrefix = (\<lambda>addr. [CHR 0x02, char_of (length addr)] @ addr)\<rparr>"

section \<open>Properties of the relayer\<close>

subsection \<open>Lazy initialisation of the stored height\<close>

lemma getLastQueryHeight_store:
  "snd (getLastQueryHeight s q) = s \<or>
   (heights s q = None \<and>
    snd (getLastQueryHeight s q) = s\<lparr>heights := (heights s)(q \<mapsto> 0), writes := writes s @ [(q, 0)]\<rparr>)"
  by (auto simp add: getLastQueryHeight_def GetLastQueryHeight_def SetLastQueryHeight_def
      split: option.splits sum.splits prod.splits)

lemma getLastQueryHeight_not_IsNotFound:
  "case fst (getLastQueryHeight s q) of Inl e \<Rightarrow> \<not> IsNotFound e | Inr h \<Rightarrow> True"
  by (auto simp add: getLastQueryHeight_def GetLastQueryHeight_def SetLastQueryHeight_def
      split: option.splits sum.splits prod.splits)

text \<open>
  C4. For a query ID that the store does not hold (and a store whose reads and writes do not
  fail), the first \<open>getLastQueryHeight\<close> writes height 0 for that ID, once, and returns
  \<open>(0, nil)\<close>; the second call returns \<open>(0, nil)\<close> and leaves the store, its write log
  included, as the first call left it. Whatever the store does, the error that
  \<open>getLastQueryHeight\<close> returns is never "not found", bare or wrapped.
\<close>

theorem getLastQueryHeight_idempotent_init:
  assumes absent: "heights s queryID = None"
    and healthy: "read_fault s = None" "write_fault s = None"
  shows "(let (r1, s1) = getLastQueryHeight s queryID;
              (r2, s2) = getLastQueryHeight s1 queryID
          in r1 = Inr 0 \<and> heights s1 = (heights s)(queryID \<mapsto> 0)
             \<and> writes s1 = writes s @ [(queryID, 0)]
             \<and> r2 = Inr 0 \<and> s2 = s1)
         \<and> (\<forall>s' q. case fst (getLastQueryHeight s' q) of
                       Inl e \<Rightarrow> \<not> IsNotFound e
                     | Inr h \<Rightarrow> True)"
proof -
  have "(let (r1, s1) = getLastQueryHeight s queryID;
              (r2, s2) = getLastQueryHeight s1 queryID
          in r1 = Inr 0 \<and> heights s1 = (heights s)(queryID \<mapsto> 0)
             \<and> writes s1 = writes s @ [(queryID, 0)]
             \<and> r2 = Inr 0 \<and> s2 = s1)"
    using assms
    by (simp add: getLastQueryHeight_def GetLastQueryHeight_def SetLastQueryHeight_def)
  then show ?thesis
    using getLastQueryHeight_not_IsNotFound by blast
qed

theorem getLastQueryHeight_idempotent_init_witness:
  "heights empty_store 1 = None \<and>
   fst (getLastQueryHeight empty_store 1) = Inr 0 \<and>
   writes (snd (getLastQueryHeight empty_store 1)) = [(1, 0)] \<and>
   getLastQueryHeight (snd (getLastQueryHeight empty_store 1)) 1
     = (Inr 0, snd (getLastQueryHeight empty_store 1))"
proof -
  have a: "heights empty_store 1 = None" and r: "read_fault empty_store = None"
    and w: "write_fault empty_store = None"
    by (simp_all add: empty_store_def)
  from getLastQueryHeight_idempotent_init [OF a r w] a show ?thesis
    by (simp add: empty_store_def split: prod.splits)
qed

subsection \<open>The search filter\<close>

text \<open>
  C5. When the store's reads and writes do not fail and the message's filter decodes to the
  list \<open>F\<close>, \<open>buildTxQuery\<close> returns \<open>F\<close> followed by the one item
  \<open>{tx.height, gt, h}\<close>, where \<open>h\<close> is the height stored for the query ID, and 0 when
  none is stored.
\<close>

theorem buildTxQuery_appends_height:
  assumes healthy: "read_fault s = None" "write_fault s = None"
    and parsed: "jsonUnmarshal r (TransactionsFilter m) = Inr F"
  shows "fst (buildTxQuery r m s) =
           Inr (F @ [\<lparr>Field = ''tx.height'', Op = ''gt'',
                      Value = Uint64Value (case heights s (QueryId m) of None \<Rightarrow> 0 | Some h \<Rightarrow> h)\<rparr>])"
  using assms
  by (simp add: buildTxQuery_def getLastQueryHeight_def GetLastQueryHeight_def
      SetLastQueryHeight_def TxHeight_def split: option.splits)

theorem buildTxQuery_appends_height_witness:
  "fst (buildTxQuery (example_relayer None) transfer_message empty_store) =
     Inr [\<lparr>Field = ''message.action'', Op = ''eq'', Value = JSONValue ''transfer''\<rparr>,
          \<lparr>Field = ''tx.height'', Op = ''gt'', Value = Uint64Value 0\<rparr>]"
proof -
  have r: "read_fault empty_store = None" and w: "write_fault empty_store = None"
    by (simp_all add: empty_store_def)
  have p: "jsonUnmarshal (example_relayer None) (TransactionsFilter transfer_message) = Inr transfer_filter"
    by (simp add: example_relayer_def transfer_message_def)
  from buildTxQuery_appends_height [OF r w p] show ?thesis
    by (simp add: transfer_filter_def empty_store_def transfer_message_def)
qed

subsection \<open>The height is persisted only after a successful cycle\<close>

lemma buildTxQuery_store: "snd (buildTxQuery r m s) = snd (getLastQueryHeight s (QueryId m))"
  by (simp add: buildTxQuery_def split: prod.splits sum.splits)

text \<open>
  C1. Let \<open>s1\<close> be the store as \<open>getLastQueryHeight\<close> leaves it (the store it was given,
  or that store with the never-seen query ID initialised to 0). A run of
  \<open>processMessageTX\<close> ends in \<open>s1\<close> unless it returns nil after the filter was built, the
  search reported no error and \<open>ProcessAndSubmit\<close> returned a height \<open>h\<close>, in which case
  the one further write is \<open>h\<close> for the query ID. When \<open>ProcessAndSubmit\<close> fails, the run
  returns that error wrapped and ends in \<open>s1\<close>; when the search reports an error, likewise.
\<close>

theorem processMessageTX_persists_only_after_success:
  assumes run: "processMessageTX r ctx m s = (res, s')"
    and init: "snd (getLastQueryHeight s (QueryId m)) = s1"
  shows "(s' = s1 \<or>
          (res = None \<and>
           (\<exists>qp txs h. fst (buildTxQuery r m s) = Inr qp
              \<and> SearchTransactions r ctx qp = (txs, None)
              \<and> TxProcessAndSubmit r ctx (QueryId m) txs = Inr h
              \<and> s' = s1\<lparr>heights := (heights s1)(QueryId m \<mapsto> h),
                          writes := writes s1 @ [(QueryId m, h)]\<rparr>)))
       \<and> (\<forall>qp txs qerr. fst (buildTxQuery r m s) = Inr qp
              \<longrightarrow> SearchTransactions r ctx qp = (txs, qerr)
              \<longrightarrow> (case TxProcessAndSubmit r ctx (QueryId m) txs of
                     Inl e \<Rightarrow> res = Some (Wrapf ''failed to process txs: '' e) \<and> s' = s1
                   | Inr h \<Rightarrow>
                       (case qerr of
                          Some e \<Rightarrow> res = Some (Wrapf ''failed to query txs: '' e) \<and> s' = s1
                        | None \<Rightarrow> True)))
       \<and> (s1 = s \<or>
            (heights s (QueryId m) = None \<and>
             s1 = s\<lparr>heights := (heights s)(QueryId m \<mapsto> 0), writes := writes s @ [(QueryId m, 0)]\<rparr>))"
proof -
  obtain b where b: "buildTxQuery r m s = (b, s1)"
    using init buildTxQuery_store [of r m s] by (cases "buildTxQuery r m s") simp
  have third: "s1 = s \<or>
            (heights s (QueryId m) = None \<and>
             s1 = s\<lparr>heights := (heights s)(QueryId m \<mapsto> 0), writes := writes s @ [(QueryId m, 0)]\<rparr>)"
    using getLastQueryHeight_store [of s "QueryId m"] init by simp
  show ?thesis
  proof (cases b)
    case (Inl e)
    with run b third show ?thesis by (simp add: processMessageTX_def)
  next
    case (Inr qp)
    obtain txs qerr where st: "SearchTransactions r ctx qp = (txs, qerr)"
      by (cases "SearchTransactions r ctx qp")
    show ?thesis
    proof (cases "TxProcessAndSubmit r ctx (QueryId m) txs")
      case (Inl e)
      with run b Inr st third show ?thesis by (simp add: processMessageTX_def)
    next
      case h: (Inr h)
      show ?thesis
      proof (cases qerr)
        case (Some e)
        with run b Inr st h third show ?thesis by (simp add: processMessageTX_def)
      next
        case None
        with run b Inr st h third show ?thesis
          by (auto simp add: processMessageTX_def SetLastQueryHeight_def split: option.splits)
      qed
    qed
  qed
qed

theorem processMessageTX_persists_only_after_success_witness:
  "processMessageTX (example_relayer (Some insufficient_fees)) Background transfer_message empty_store
     = (Some (Wrapf ''failed to process txs: '' insufficient_fees),
        snd (getLastQueryHeight empty_store 1))
   \<and> heights (snd (getLastQueryHeight empty_store 1)) 1 = Some 0
   \<and> writes (snd (getLastQueryHeight empty_store 1)) = [(1, 0)]"
proof -
  obtain res s' where run:
    "processMessageTX (example_relayer (Some insufficient_fees)) Background transfer_message empty_store = (res, s')"
    by (cases "processMessageTX (example_relayer (Some insufficient_fees)) Background transfer_message empty_store")
  have init: "snd (getLastQueryHeight empty_store (QueryId transfer_message)) = snd (getLastQueryHeight empty_store 1)"
    by (simp add: transfer_message_def)
  have b: "fst (buildTxQuery (example_relayer (Some insufficient_fees)) transfer_message empty_store)
            = Inr (transfer_filter @ [\<lparr>Field = ''tx.height'', Op = ''gt'', Value = Uint64Value 0\<rparr>])"
    by (simp add: buildTxQuery_def getLastQueryHeight_def GetLastQueryHeight_def
        SetLastQueryHeight_def TxHeight_def example_relayer_def transfer_message_def empty_store_def)
  have st: "SearchTransactions (example_relayer (Some insufficient_fees)) Background
              (transfer_filter @ [\<lparr>Field = ''tx.height'', Op = ''gt'', Value = Uint64Value 0\<rparr>])
            = ([\<lparr>Height = 7, Tx = ''tx7''\<rparr>], None)"
    by (simp add: example_relayer_def)
  have pr: "TxProcessAndSubmit (example_relayer (Some insufficient_fees)) Background (QueryId transfer_message)
              [\<lparr>Height = 7, Tx = ''tx7''\<rparr>] = Inl insufficient_fees"
    by (simp add: example_relayer_def)
  have g: "snd (getLastQueryHeight empty_store 1) =
             empty_store\<lparr>heights := (heights empty_store)(1 \<mapsto> 0), writes := writes empty_store @ [(1, 0)]\<rparr>"
    by (simp add: getLastQueryHeight_def GetLastQueryHeight_def SetLastQueryHeight_def empty_store_def)
  from processMessageTX_persists_only_after_success [OF run init] b st pr
  have "res = Some (Wrapf ''failed to process txs: '' insufficient_fees)
        \<and> s' = snd (getLastQueryHeight empty_store 1)"
    by (simp add: transfer_message_def)
  with run g show ?thesis by (simp add: empty_store_def)
qed

subsection \<open>The dispatch of a dequeued query\<close>

lemma dispatch_kv_context:
  "QueryType query = ''kv'' \<Longrightarrow>
     dispatch r ctx query s
       = (KvProcessAndSubmit r ctx \<lparr>KVQueryId = Id query, KVKeys = Keys query\<rparr>, s)"
  by (simp add: dispatch_def InterchainQueryTypeKV_def processMessageKV_def)

lemma dispatch_tx_context:
  "QueryType query = ''tx'' \<Longrightarrow> dispatch r ctx query s = dispatch r Background query s"
  by (simp add: dispatch_def InterchainQueryTypeKV_def InterchainQueryTypeTX_def)

lemma Run_step_cancelled:
  "Done ctx \<Longrightarrow> close_fault (storage st) = None \<Longrightarrow>
     Run_step r ctx st = Returned None (st\<lparr>storage := (storage st)\<lparr>closed := True\<rparr>\<rparr>)"
  by (simp add: Run_step_def stop_def Close_def)

text \<open>
  C6. The caller's context does not reach the TX path: \<open>Run\<close> hands
  \<open>context.Background()\<close> to \<open>processMessageTX\<close>, while the KV path gets \<open>ctx\<close>. With
  collaborators that honour cancellation and a caller's context that is cancelled once the
  query has been dequeued, the KV query is abandoned with "context canceled", and the TX
  query is searched, submitted and its height 7 persisted.
\<close>

theorem dispatch_tx_ignores_caller_context:
  "dispatch (example_relayer None) (WithCancel True) kv_query empty_store
     = (Some (External ''context canceled''), empty_store)
   \<and> fst (dispatch (example_relayer None) (WithCancel True) tx_query empty_store) = None
   \<and> writes (snd (dispatch (example_relayer None) (WithCancel True) tx_query empty_store))
       = [(1, 0), (1, 7)]"
  by (simp add: dispatch_def InterchainQueryTypeKV_def InterchainQueryTypeTX_def kv_query_def
      tx_query_def processMessageKV_def processMessageTX_def buildTxQuery_def
      getLastQueryHeight_def GetLastQueryHeight_def SetLastQueryHeight_def example_relayer_def
      empty_store_def)

section \<open>Properties of the transaction sender\<close>

lemmas example_defs = example_sender_def NewTxSender_def example_rpc_def example_sdk_def
  example_config_def ok_response_def insufficient_fees_response_def mode_def

lemmas run_defs = queryAccount_def buildTxBz_def calculateGas_def buildSimulationTx_def
  uint64_of_float64_def float64_of_uint64_def round_float64_def example_account_def

subsection \<open>The broadcast step\<close>

lemma Send_after_build:
  assumes account: "queryAccount cc ctx sender = Inr account"
    and gas: "calculateGas cc ctx
                ((baseTxf cc)\<lparr>txf_accountNumber := AccountNumber account,
                               txf_sequence := Sequence account\<rparr>) msgs = Inr gasNeeded"
    and build: "buildTxBz cc
                  ((baseTxf cc)\<lparr>txf_accountNumber := AccountNumber account,
                                 txf_sequence := Sequence account,
                                 txf_gas := gasNeeded, txf_gasPrices := gasPrices cc\<rparr>) msgs = Inr bz"
  shows "Send cc ctx sender msgs =
     (case txBroadcastType cc of
        BroadcastTxSync \<Rightarrow>
          (case BroadcastTxSync_rpc (rpcClient cc) ctx bz of
             Inl err \<Rightarrow> Some (Wrapf ''error broadcasting sync transaction: '' err)
           | Inr res \<Rightarrow>
               if Code res = 0 then None
               else Some (Errorf (''error broadcasting sync transaction with log='' @ Log res)))
      | BroadcastTxAsync \<Rightarrow>
          (case BroadcastTxAsync_rpc (rpcClient cc) ctx bz of
             Inl err \<Rightarrow> Some (Wrapf ''error broadcasting async transaction: '' err)
           | Inr res \<Rightarrow>
               if Code res = 0 then None
               else Some (Errorf (''error broadcasting async transaction with log='' @ Log res)))
      | BroadcastTxCommit \<Rightarrow>
          (case BroadcastTxCommit_rpc (rpcClient cc) ctx bz of
             Inl err \<Rightarrow> Some (Wrapf ''error broadcasting commit transaction: '' err)
           | Inr res \<Rightarrow>
               if Code (CheckTx res) = 0 \<and> Code (DeliverTx res) = 0 then None
               else Some (Errorf (''error broadcasting commit transaction with checktx log=''
                                  @ Log (CheckTx res) @ '' and deliverytx log=''
                                  @ Log (DeliverTx res))))
      | OtherBroadcastType s \<Rightarrow>
          Some (Errorf (''not implemented transaction send type: '' @ s)))"
  using assms by (simp add: Send_def Let_def split: TxBroadcastType.splits)

lemma sublist_commit_logs:
  "sublist a (p @ a @ q @ b)" "sublist b (p @ a @ q @ b)"
proof -
  show "sublist a (p @ a @ q @ b)" by (rule sublist_appendI)
  have "sublist b ((p @ a @ q) @ b)" by (rule sublist_append_leftI)
  then show "sublist b (p @ a @ q @ b)" by simp
qed

text \<open>
  C2 (as amended). When the account lookup, the gas simulation and the build of the signed
  transaction succeed and the broadcast call returns a response: in commit mode \<open>Send\<close>
  returns nil iff the codes of \<open>CheckTx\<close> and \<open>DeliverTx\<close> are both 0; in sync mode iff
  the response code is 0; in async mode, too, iff the response code is 0. An error returned
  for a non-zero code contains the log of the response (both logs in commit mode) as it is.
  A broadcast call that itself fails in async mode gives that error, wrapped.
\<close>

theorem Send_broadcast_outcome:
  assumes account: "queryAccount cc ctx sender = Inr account"
    and gas: "calculateGas cc ctx
                ((baseTxf cc)\<lparr>txf_accountNumber := AccountNumber account,
                               txf_sequence := Sequence account\<rparr>) msgs = Inr gasNeeded"
    and build: "buildTxBz cc
                  ((baseTxf cc)\<lparr>txf_accountNumber := AccountNumber account,
                                 txf_sequence := Sequence account,
                                 txf_gas := gasNeeded, txf_gasPrices := gasPrices cc\<rparr>) msgs = Inr bz"
  shows "(txBroadcastType cc = BroadcastTxCommit \<longrightarrow>
            BroadcastTxCommit_rpc (rpcClient cc) ctx bz = Inr cres \<longrightarrow>
              ((Send cc ctx sender msgs = None) = (Code (CheckTx cres) = 0 \<and> Code (DeliverTx cres) = 0))
              \<and> (\<forall>e. Send cc ctx sender msgs = Some e \<longrightarrow>
                     sublist (Log (CheckTx cres)) (Error e) \<and> sublist (Log (DeliverTx cres)) (Error e)))
       \<and> (txBroadcastType cc = BroadcastTxSync \<longrightarrow>
            BroadcastTxSync_rpc (rpcClient cc) ctx bz = Inr sres \<longrightarrow>
              ((Send cc ctx sender msgs = None) = (Code sres = 0))
              \<and> (\<forall>e. Send cc ctx sender msgs = Some e \<longrightarrow> sublist (Log sres) (Error e)))
       \<and> (txBroadcastType cc = BroadcastTxAsync \<longrightarrow>
            BroadcastTxAsync_rpc (rpcClient cc) ctx bz = Inr ares \<longrightarrow>
              ((Send cc ctx sender msgs = None) = (Code ares = 0))
              \<and> (\<forall>e. Send cc ctx sender msgs = Some e \<longrightarrow> sublist (Log ares) (Error e)))
       \<and> (txBroadcastType cc = BroadcastTxAsync \<longrightarrow>
            BroadcastTxAsync_rpc (rpcClient cc) ctx bz = Inl err \<longrightarrow>
              Send cc ctx sender msgs = Some (Wrapf ''error broadcasting async transaction: '' err))"
  by (simp add: Send_after_build [OF assms] sublist_commit_logs sublist_append_leftI
      del: append.simps)

theorem Send_broadcast_outcome_witness:
  "Send (example_sender BroadcastTxSync 0 insufficient_fees_response ok_response False)
        Background ''sender'' [''msg'']
     = Some (Errorf ''error broadcasting sync transaction with log=insufficient fees'')
   \<and> sublist ''insufficient fees''
        (Error (Errorf ''error broadcasting sync transaction with log=insufficient fees''))"
proof -
  let ?cc = "example_sender BroadcastTxSync 0 insufficient_fees_response ok_response False"
  have a: "queryAccount ?cc Background ''sender'' = Inr example_account"
    by (simp add: run_defs example_defs)
  have g: "calculateGas ?cc Background
             ((baseTxf ?cc)\<lparr>txf_accountNumber := AccountNumber example_account,
                             txf_sequence := Sequence example_account\<rparr>) [''msg''] = Inr 4"
    by (simp add: run_defs example_defs)
  have b: "buildTxBz ?cc
             ((baseTxf ?cc)\<lparr>txf_accountNumber := AccountNumber example_account,
                             txf_sequence := Sequence example_account,
                             txf_gas := 4, txf_gasPrices := gasPrices ?cc\<rparr>) [''msg''] = Inr ''msg''"
    by (simp add: run_defs example_defs)
  have m: "txBroadcastType ?cc = BroadcastTxSync"
    by (simp add: example_defs)
  have r: "BroadcastTxSync_rpc (rpcClient ?cc) Background ''msg'' = Inr insufficient_fees_response"
    by (simp add: example_defs)
  have s: "Send ?cc Background ''sender'' [''msg'']
             = Some (Errorf ''error broadcasting sync transaction with log=insufficient fees'')"
    by (simp add: Send_def run_defs example_defs)
  have l: "Log insufficient_fees_response = ''insufficient fees''"
    by (simp add: insufficient_fees_response_def)
  from Send_broadcast_outcome [OF a g b, of _ insufficient_fees_response] m r s
  have "sublist (Log insufficient_fees_response)
          (Error (Errorf ''error broadcasting sync transaction with log=insufficient fees''))"
    by blast
  with s l show ?thesis by (simp only: simp_thms)
qed

text \<open>
  C2 as stated fails in async mode: the node accepts the submission call and answers with
  code 5, and \<open>Send\<close> returns an error.
\<close>

theorem Send_async_checks_code:
  "txBroadcastType (example_sender BroadcastTxAsync 0 insufficient_fees_response ok_response False)
     = BroadcastTxAsync
   \<and> BroadcastTxAsync_rpc
        (rpcClient (example_sender BroadcastTxAsync 0 insufficient_fees_response ok_response False))
        Background ''msg'' = Inr \<lparr>Code = 5, Log = ''insufficient fees''\<rparr>
   \<and> Send (example_sender BroadcastTxAsync 0 insufficient_fees_response ok_response False)
        Background ''sender'' [''msg'']
       = Some (Errorf ''error broadcasting async transaction with log=insufficient fees'')"
  by (simp add: Send_def run_defs example_defs)

subsection \<open>An unknown broadcast type\<close>

text \<open>
  C7 (as amended). For a configured broadcast type \<open>s\<close> other than \<open>Sync\<close>,
  \<open>Async\<close> and \<open>Commit\<close>, \<open>NewTxSender\<close> accepts the configuration and keeps the
  type. \<open>Send\<close> of such a sender never returns nil; when the account lookup, the gas
  simulation and the build of the signed transaction succeed, it returns the error
  "not implemented transaction send type" with the configured type as the error of that
  call.
\<close>

theorem Send_unknown_broadcast_type:
  assumes cfg: "ConfigTxBroadcastType cfg = OtherBroadcastType s"
    and other: "s \<notin> {''Sync'', ''Async'', ''Commit''}"
  shows "\<exists>cc. NewTxSender rpc lib cfg = Inr cc \<and> txBroadcastType cc = OtherBroadcastType s
          \<and> (\<forall>ctx sender msgs. Send cc ctx sender msgs \<noteq> None)
          \<and> (\<forall>ctx sender msgs account gasNeeded bz.
                queryAccount cc ctx sender = Inr account \<longrightarrow>
                calculateGas cc ctx
                  ((baseTxf cc)\<lparr>txf_accountNumber := AccountNumber account,
                                 txf_sequence := Sequence account\<rparr>) msgs = Inr gasNeeded \<longrightarrow>
                buildTxBz cc
                  ((baseTxf cc)\<lparr>txf_accountNumber := AccountNumber account,
                                 txf_sequence := Sequence account,
                                 txf_gas := gasNeeded, txf_gasPrices := gasPrices cc\<rparr>) msgs = Inr bz \<longrightarrow>
                Send cc ctx sender msgs =
                  Some (Errorf (''not implemented transaction send type: '' @ s)))"
proof -
  obtain cc where cc: "NewTxSender rpc lib cfg = Inr cc" and m: "txBroadcastType cc = OtherBroadcastType s"
    using cfg by (simp add: NewTxSender_def)
  have never: "Send cc ctx sender msgs \<noteq> None" for ctx sender msgs
    using m by (simp add: Send_def Let_def split: sum.splits)
  have after: "Send cc ctx sender msgs = Some (Errorf (''not implemented transaction send type: '' @ s))"
    if "queryAccount cc ctx sender = Inr account"
      and "calculateGas cc ctx
                  ((baseTxf cc)\<lparr>txf_accountNumber := AccountNumber account,
                                 txf_sequence := Sequence account\<rparr>) msgs = Inr gasNeeded"
      and "buildTxBz cc
                  ((baseTxf cc)\<lparr>txf_accountNumber := AccountNumber account,
                                 txf_sequence := Sequence account,
                                 txf_gas := gasNeeded, txf_gasPrices := gasPrices cc\<rparr>) msgs = Inr bz"
    for ctx sender msgs account gasNeeded bz
    using Send_after_build [OF that] m by simp
  from cc m never after show ?thesis by blast
qed

theorem Send_unknown_broadcast_type_witness:
  "ConfigTxBroadcastType (example_config (OtherBroadcastType ''block'')) = OtherBroadcastType ''block''
   \<and> ''block'' \<notin> {''Sync'', ''Async'', ''Commit''}
   \<and> (\<exists>cc. NewTxSender (example_rpc 0 ok_response ok_response) (example_sdk False)
              (example_config (OtherBroadcastType ''block'')) = Inr cc
          \<and> txBroadcastType cc = OtherBroadcastType ''block''
          \<and> Send cc Background ''sender'' [''msg''] \<noteq> None)"
proof -
  have c: "ConfigTxBroadcastType (example_config (OtherBroadcastType ''block'')) = OtherBroadcastType ''block''"
    by (simp add: example_config_def)
  have o: "''block'' \<notin> {''Sync'', ''Async'', ''Commit''}"
    by simp
  from Send_unknown_broadcast_type [OF c o, of "example_rpc 0 ok_response ok_response" "example_sdk False"] c o
  show ?thesis by blast
qed

text \<open>
  C7 as stated fails: a sender is built for the broadcast type \<open>block\<close>, \<open>Send\<close> is
  called with it, and the unknown type comes back as the error of that call.
\<close>

theorem Send_reports_unknown_mode_per_call:
  "NewTxSender (example_rpc 0 ok_response ok_response) (example_sdk False)
     (example_config (OtherBroadcastType ''block''))
     = Inr (example_sender (OtherBroadcastType ''block'') 0 ok_response ok_response False)
   \<and> txBroadcastType (example_sender (OtherBroadcastType ''block'') 0 ok_response ok_response False)
       = OtherBroadcastType ''block''
   \<and> Send (example_sender (OtherBroadcastType ''block'') 0 ok_response ok_response False)
        Background ''sender'' [''msg'']
       = Some (Errorf ''not implemented transaction send type: block'')"
  by (simp add: Send_def run_defs example_defs)

subsection \<open>The gas amount\<close>

lemma round_float64_exact: "\<bar>m\<bar> < 2 ^ 53 \<Longrightarrow> round_float64 m e = Float64 m e"
  by (simp add: round_float64_def)

lemma truncate_float64_floor:
  assumes "0 \<le> m"
  shows "truncate_float64 (Float64 m e) = \<lfloor>float64_val (Float64 m e)\<rfloor>"
proof (cases "0 \<le> e")
  case True
  then have "float64_val (Float64 m e) = of_int (m * 2 ^ nat e)"
    by (simp add: power_int_def)
  then show ?thesis using True by (simp del: of_int_mult of_int_power)
next
  case False
  then have v: "float64_val (Float64 m e) = of_int m / of_int (2 ^ nat (- e))"
    by (simp add: power_int_def field_simps)
  have "\<lfloor>(of_int m :: real) / of_int (2 ^ nat (- e))\<rfloor> = m div 2 ^ nat (- e)"
    by (rule floor_divide_of_int_eq)
  moreover have "sgn m * (\<bar>m\<bar> div 2 ^ nat (- e)) = m div 2 ^ nat (- e)"
    using assms by (cases "m = 0") (simp_all add: sgn_if)
  ultimately show ?thesis using False v by simp
qed

lemma float64_val_nonneg_iff: "0 \<le> float64_val (Float64 m e) \<longleftrightarrow> 0 \<le> m"
proof -
  have "(0::real) < 2 powi e"
    by (rule zero_less_power_int) simp
  then show ?thesis
    by (simp add: zero_le_mult_iff not_le [symmetric])
qed

lemma round_float64_nonneg:
  assumes "0 \<le> m"
  shows "\<exists>m' e'. round_float64 m e = Float64 m' e' \<and> 0 \<le> m'"
proof (cases "\<bar>m\<bar> < 2 ^ 53")
  case True
  with assms show ?thesis by (simp add: round_float64_def)
next
  case False
  have "0 \<le> \<bar>m\<bar> div 2 ^ k" for k :: nat
    by (simp add: pos_imp_zdiv_nonneg_iff)
  moreover have "0 \<le> sgn m" using assms by (simp add: sgn_if)
  ultimately show ?thesis
    using False by (simp add: round_float64_def Let_def)
qed

lemma float64_mul_nonneg:
  assumes "0 \<le> float64_val a" "0 \<le> float64_val b"
  shows "\<exists>m e. float64_mul a b = Float64 m e \<and> 0 \<le> m"
proof -
  obtain m1 e1 m2 e2 where a: "a = Float64 m1 e1" and b: "b = Float64 m2 e2"
    by (cases a, cases b) blast
  from assms a b have "0 \<le> m1 * m2"
    by (simp only: float64_val_nonneg_iff mult_nonneg_nonneg)
  from round_float64_nonneg [OF this, of "e1 + e2"] a b show ?thesis
    by simp
qed

lemma float64_of_uint64_nonneg: "0 \<le> float64_val (float64_of_uint64 x)"
proof -
  have "0 \<le> uint x" by simp
  from round_float64_nonneg [OF this, of 0]
  obtain m e where "float64_of_uint64 x = Float64 m e" "0 \<le> m"
    by (auto simp add: float64_of_uint64_def)
  then show ?thesis by (simp only: float64_val_nonneg_iff)
qed

lemma uint64_of_float64_floor:
  assumes "f = Float64 m e" "0 \<le> m" "float64_val f < 2 ^ 64"
  shows "uint (uint64_of_float64 u f) = \<lfloor>float64_val f\<rfloor>"
proof -
  have t: "truncate_float64 f = \<lfloor>float64_val f\<rfloor>"
    using truncate_float64_floor [OF assms(2), of e] assms(1) by (simp only:)
  have "0 \<le> float64_val f"
    using assms(1,2) by (simp only: float64_val_nonneg_iff)
  then have n: "0 \<le> \<lfloor>float64_val f\<rfloor>"
    by (simp only: zero_le_floor)
  have l: "\<lfloor>float64_val f\<rfloor> < 2 ^ 64"
    using assms(3) by (simp add: floor_less_iff)
  have "uint64_of_float64 u f = word_of_int \<lfloor>float64_val f\<rfloor>"
    using t n l by (simp add: uint64_of_float64_def Let_def)
  moreover have "uint (word_of_int \<lfloor>float64_val f\<rfloor> :: uint64) = \<lfloor>float64_val f\<rfloor>"
    using n l by (simp add: uint_word_of_int take_bit_int_eq_self)
  ultimately show ?thesis by (simp only:)
qed

lemma float64_mul_exact:
  assumes "0 \<le> m" "uint x < 2 ^ 53" "m * uint x < 2 ^ 53"
  shows "float64_val (float64_mul (Float64 m e) (float64_of_uint64 x))
           = float64_val (Float64 m e) * of_int (uint x)"
proof -
  have u0: "0 \<le> uint x" by simp
  have conv: "float64_of_uint64 x = Float64 (uint x) 0"
    using assms(2) u0 by (simp add: float64_of_uint64_def round_float64_exact)
  have mu0: "0 \<le> m * uint x" using assms(1) u0 by simp
  have "float64_mul (Float64 m e) (Float64 (uint x) 0) = Float64 (m * uint x) e"
    using assms(3) mu0 by (simp add: round_float64_exact)
  with conv show ?thesis by (simp add: algebra_simps)
qed

text \<open>
  The model rounds as the hardware does: 1.3 is the \<open>float64\<close>
  \<open>5854679515581645 * 2^-52\<close>, and \<open>uint64(1.3 * float64(100000))\<close> is 130000.
\<close>

lemma calculateGas_product_example:
  "uint64_of_float64 u (float64_mul (Float64 5854679515581645 (- 52)) (float64_of_uint64 100000))
     = 130000"
  by code_simp

text \<open>
  C3 (as amended). For every \<open>gasUsed\<close> and every gas adjustment, when the simulation
  request is built, the endpoint answers and the response holds gas info, \<open>calculateGas\<close>
  returns \<open>uint64(gasAdjustment * float64(gasUsed))\<close>. For an adjustment that is not
  negative and a \<open>float64\<close> product below \<open>2^64\<close> this is the floor of the
  \<open>float64\<close> product: the fraction is discarded, not rounded up. When moreover nothing
  is rounded (the adjustment is \<open>m * 2^e\<close>, and \<open>gasUsed\<close> and \<open>m * gasUsed\<close> are
  below \<open>2^53\<close>), it is the floor of \<open>gasAdjustment * gasUsed\<close>. \<open>Send\<close> builds the
  final transaction from the factory whose gas is this amount: its result is that of
  \<open>buildTxBz\<close> on that factory, followed by the broadcast of the bytes. The amount is a
  function of the inputs.
\<close>

theorem calculateGas_truncates:
  assumes sim: "buildSimulationTx cc txf msgs = Inr simulation"
    and res: "ABCIQueryWithOptions (rpcClient cc) ctx ''/cosmos.tx.v1beta1.Service/Simulate'' simulation = Inr res"
    and dec: "UnmarshalSimulateResponse (sdk cc) (QueryValue res) = Inr simRes"
    and gi: "GasInfo simRes = Some gasInfo"
  shows "\<exists>g. calculateGas cc ctx txf msgs = Inr g
     \<and> g = uint64_of_float64 (unrepresentable_uint64 (sdk cc))
             (float64_mul (txf_gasAdjustment txf) (float64_of_uint64 (GasUsed gasInfo)))
     \<and> (0 \<le> float64_val (txf_gasAdjustment txf) \<longrightarrow>
          float64_val (float64_mul (txf_gasAdjustment txf) (float64_of_uint64 (GasUsed gasInfo))) < 2 ^ 64 \<longrightarrow>
          uint g = \<lfloor>float64_val (float64_mul (txf_gasAdjustment txf)
                                  (float64_of_uint64 (GasUsed gasInfo)))\<rfloor>)
     \<and> (\<forall>m e. txf_gasAdjustment txf = Float64 m e \<longrightarrow> 0 \<le> m \<longrightarrow>
            uint (GasUsed gasInfo) < 2 ^ 53 \<longrightarrow> m * uint (GasUsed gasInfo) < 2 ^ 53 \<longrightarrow>
            float64_val (txf_gasAdjustment txf) * of_int (uint (GasUsed gasInfo)) < 2 ^ 64 \<longrightarrow>
            uint g = \<lfloor>float64_val (txf_gasAdjustment txf) * of_int (uint (GasUsed gasInfo))\<rfloor>)
     \<and> (\<forall>sender account.
            queryAccount cc ctx sender = Inr account \<longrightarrow>
            txf = (baseTxf cc)\<lparr>txf_accountNumber := AccountNumber account,
                                 txf_sequence := Sequence account\<rparr> \<longrightarrow>
            Send cc ctx sender msgs =
              (case buildTxBz cc (txf\<lparr>txf_gas := g, txf_gasPrices := gasPrices cc\<rparr>) msgs of
                 Inl err \<Rightarrow> Some (Wrapf ''could not build tx bz: '' err)
               | Inr bz \<Rightarrow>
                   (case txBroadcastType cc of
                      BroadcastTxSync \<Rightarrow>
                        (case BroadcastTxSync_rpc (rpcClient cc) ctx bz of
                           Inl err \<Rightarrow> Some (Wrapf ''error broadcasting sync transaction: '' err)
                         | Inr res \<Rightarrow>
                             if Code res = 0 then None
                             else Some (Errorf (''error broadcasting sync transaction with log=''
                                                @ Log res)))
                    | BroadcastTxAsync \<Rightarrow>
                        (case BroadcastTxAsync_rpc (rpcClient cc) ctx bz of
                           Inl err \<Rightarrow> Some (Wrapf ''error broadcasting async transaction: '' err)
                         | Inr res \<Rightarrow>
                             if Code res = 0 then None
                             else Some (Errorf (''error broadcasting async transaction with log=''
                                                @ Log res)))
                    | BroadcastTxCommit \<Rightarrow>
                        (case BroadcastTxCommit_rpc (rpcClient cc) ctx bz of
                           Inl err \<Rightarrow> Some (Wrapf ''error broadcasting commit transaction: '' err)
                         | Inr res \<Rightarrow>
                             if Code (CheckTx res) = 0 \<and> Code (DeliverTx res) = 0 then None
                             else Some (Errorf
                               (''error broadcasting commit transaction with checktx log=''
                                @ Log (CheckTx res) @ '' and deliverytx log=''
                                @ Log (DeliverTx res))))
                    | OtherBroadcastType s \<Rightarrow>
                        Some (Errorf (''not implemented transaction send type: '' @ s)))))"
proof -
  let ?adj = "txf_gasAdjustment txf"
  let ?p = "float64_mul ?adj (float64_of_uint64 (GasUsed gasInfo))"
  let ?g = "uint64_of_float64 (unrepresentable_uint64 (sdk cc)) ?p"
  have g: "calculateGas cc ctx txf msgs = Inr ?g"
    using sim res dec gi by (simp add: calculateGas_def)
  have fl: "uint ?g = \<lfloor>float64_val ?p\<rfloor>"
    if nn: "0 \<le> float64_val ?adj" and lt: "float64_val ?p < 2 ^ 64"
  proof -
    from float64_mul_nonneg [OF nn float64_of_uint64_nonneg]
    obtain m e where p: "?p = Float64 m e" and m: "0 \<le> m" by blast
    from uint64_of_float64_floor [OF p m lt] show ?thesis .
  qed
  have ex: "uint ?g = \<lfloor>float64_val ?adj * of_int (uint (GasUsed gasInfo))\<rfloor>"
    if a: "?adj = Float64 m e" and m: "0 \<le> m" and u: "uint (GasUsed gasInfo) < 2 ^ 53"
      and mu: "m * uint (GasUsed gasInfo) < 2 ^ 53"
      and lt: "float64_val ?adj * of_int (uint (GasUsed gasInfo)) < 2 ^ 64"
    for m e
  proof -
    have v: "float64_val ?p = float64_val ?adj * of_int (uint (GasUsed gasInfo))"
      using float64_mul_exact [OF m u mu, of e] a by (simp only:)
    have nn: "0 \<le> float64_val ?adj"
      using a m by (simp only: float64_val_nonneg_iff)
    from fl [OF nn] lt v show ?thesis by (simp only:)
  qed
  have send: "Send cc ctx sender msgs =
              (case buildTxBz cc (txf\<lparr>txf_gas := ?g, txf_gasPrices := gasPrices cc\<rparr>) msgs of
                 Inl err \<Rightarrow> Some (Wrapf ''could not build tx bz: '' err)
               | Inr bz \<Rightarrow>
                   (case txBroadcastType cc of
                      BroadcastTxSync \<Rightarrow>
                        (case BroadcastTxSync_rpc (rpcClient cc) ctx bz of
                           Inl err \<Rightarrow> Some (Wrapf ''error broadcasting sync transaction: '' err)
                         | Inr res \<Rightarrow>
                             if Code res = 0 then None
                             else Some (Errorf (''error broadcasting sync transaction with log=''
                                                @ Log res)))
                    | BroadcastTxAsync \<Rightarrow>
                        (case BroadcastTxAsync_rpc (rpcClient cc) ctx bz of
                           Inl err \<Rightarrow> Some (Wrapf ''error broadcasting async transaction: '' err)
                         | Inr res \<Rightarrow>
                             if Code res = 0 then None
                             else Some (Errorf (''error broadcasting async transaction with log=''
                                                @ Log res)))
                    | BroadcastTxCommit \<Rightarrow>
                        (case BroadcastTxCommit_rpc (rpcClient cc) ctx bz of
                           Inl err \<Rightarrow> Some (Wrapf ''error broadcasting commit transaction: '' err)
                         | Inr res \<Rightarrow>
                             if Code (CheckTx res) = 0 \<and> Code (DeliverTx res) = 0 then None
                             else Some (Errorf
                               (''error broadcasting commit transaction with checktx log=''
                                @ Log (CheckTx res) @ '' and deliverytx log=''
                                @ Log (DeliverTx res))))
                    | OtherBroadcastType s \<Rightarrow>
                        Some (Errorf (''not implemented transaction send type: '' @ s))))"
    if acc: "queryAccount cc ctx sender = Inr account"
      and t: "txf = (baseTxf cc)\<lparr>txf_accountNumber := AccountNumber account,
                                 txf_sequence := Sequence account\<rparr>"
    for sender account
  proof -
    have "calculateGas cc ctx
            ((baseTxf cc)\<lparr>txf_accountNumber := AccountNumber account,
                           txf_sequence := Sequence account\<rparr>) msgs = Inr ?g"
      using g t by (simp only:)
    with acc t show ?thesis
      by (simp add: Send_def Let_def split: sum.splits TxBroadcastType.splits del: append.simps)
  qed
  from g fl ex send show ?thesis by blast
qed

theorem calculateGas_truncates_witness:
  "txf_gasAdjustment (baseTxf (example_sender BroadcastTxSync 0 ok_response ok_response False))
     = Float64 3 (- 1)
   \<and> (\<exists>g. calculateGas (example_sender BroadcastTxSync 0 ok_response ok_response False) Background
            ((baseTxf (example_sender BroadcastTxSync 0 ok_response ok_response False))
               \<lparr>txf_accountNumber := 11, txf_sequence := 4\<rparr>) [''msg''] = Inr g
          \<and> uint g = 4)
   \<and> Send (example_sender BroadcastTxSync 0 ok_response ok_response False)
        Background ''sender'' [''msg''] = None"
proof -
  let ?cc = "example_sender BroadcastTxSync 0 ok_response ok_response False"
  let ?txf = "(baseTxf ?cc)\<lparr>txf_accountNumber := 11, txf_sequence := 4\<rparr>"
  have sim: "buildSimulationTx ?cc ?txf [''msg''] = Inr ''msg''"
    by (simp add: run_defs example_defs)
  have res: "ABCIQueryWithOptions (rpcClient ?cc) Background ''/cosmos.tx.v1beta1.Service/Simulate'' ''msg''
               = Inr \<lparr>Code = 0, Log = ''simulated'', QueryValue = ''gas_used:3''\<rparr>"
    by (simp add: example_defs)
  have dec: "UnmarshalSimulateResponse (sdk ?cc)
               (QueryValue \<lparr>Code = 0, Log = ''simulated'', QueryValue = ''gas_used:3''\<rparr>)
               = Inr \<lparr>GasInfo = Some \<lparr>GasUsed = 3\<rparr>\<rparr>"
    by (simp add: example_defs)
  have gi: "GasInfo \<lparr>GasInfo = Some \<lparr>GasUsed = 3\<rparr>\<rparr> = Some \<lparr>GasUsed = 3\<rparr>"
    by simp
  have adj: "txf_gasAdjustment ?txf = Float64 3 (- 1)"
    by (simp add: example_defs)
  have adj0: "txf_gasAdjustment (baseTxf ?cc) = Float64 3 (- 1)"
    by (simp add: example_defs)
  have exact: "(0::int) \<le> 3" "uint (GasUsed \<lparr>GasUsed = 3\<rparr>) < 2 ^ 53"
    "3 * uint (GasUsed \<lparr>GasUsed = 3\<rparr>) < 2 ^ 53"
    by simp_all
  have fits: "float64_val (txf_gasAdjustment ?txf) * of_int (uint (GasUsed \<lparr>GasUsed = 3\<rparr>)) < 2 ^ 64"
    by (simp add: adj power_int_def)
  have fl: "\<lfloor>float64_val (txf_gasAdjustment ?txf) * of_int (uint (GasUsed \<lparr>GasUsed = 3\<rparr>))\<rfloor> = 4"
    by (simp add: adj power_int_def floor_divide_eq_div_numeral)
  from calculateGas_truncates [OF sim res dec gi]
  obtain g where g: "calculateGas ?cc Background ?txf [''msg''] = Inr g"
    and ex: "\<forall>m e. txf_gasAdjustment ?txf = Float64 m e \<longrightarrow> 0 \<le> m \<longrightarrow>
            uint (GasUsed \<lparr>GasUsed = 3\<rparr>) < 2 ^ 53 \<longrightarrow> m * uint (GasUsed \<lparr>GasUsed = 3\<rparr>) < 2 ^ 53 \<longrightarrow>
            float64_val (txf_gasAdjustment ?txf) * of_int (uint (GasUsed \<lparr>GasUsed = 3\<rparr>)) < 2 ^ 64 \<longrightarrow>
            uint g = \<lfloor>float64_val (txf_gasAdjustment ?txf) * of_int (uint (GasUsed \<lparr>GasUsed = 3\<rparr>))\<rfloor>"
    by blast
  from ex adj exact fits have "uint g = \<lfloor>float64_val (txf_gasAdjustment ?txf) * of_int (uint (GasUsed \<lparr>GasUsed = 3\<rparr>))\<rfloor>"
    by blast
  with fl have u: "uint g = 4" by (simp only:)
  have s: "Send ?cc Background ''sender'' [''msg''] = None"
    by (simp add: Send_def run_defs example_defs)
  from adj0 g u s show ?thesis by blast
qed

text \<open>
  C3 as stated fails: for the adjustment 1.5 and 3 simulated gas units \<open>calculateGas\<close>
  returns 4, and the ceiling of the product is 5.
\<close>

theorem calculateGas_not_ceiling:
  "calculateGas (example_sender BroadcastTxSync 0 ok_response ok_response False) Background
     (baseTxf (example_sender BroadcastTxSync 0 ok_response ok_response False)) [''msg''] = Inr 4
   \<and> txf_gasAdjustment (baseTxf (example_sender BroadcastTxSync 0 ok_response ok_response False)) = Float64 3 (- 1)
   \<and> \<lceil>float64_val (Float64 3 (- 1)) * 3\<rceil> = 5"
  by (simp add: calculateGas_def buildSimulationTx_def example_defs uint64_of_float64_def
      float64_of_uint64_def round_float64_def power_int_def ceiling_divide_eq_div_numeral)

lemma calculateGas_endpoint_error:
  "buildSimulationTx cc txf msgs = Inr simulation \<Longrightarrow>
   ABCIQueryWithOptions (rpcClient cc) ctx ''/cosmos.tx.v1beta1.Service/Simulate'' simulation = Inl err \<Longrightarrow>
   calculateGas cc ctx txf msgs = Inl err"
  by (simp add: calculateGas_def)

lemma calculateGas_no_gas_info:
  "buildSimulationTx cc txf msgs = Inr simulation \<Longrightarrow>
   ABCIQueryWithOptions (rpcClient cc) ctx ''/cosmos.tx.v1beta1.Service/Simulate'' simulation = Inr res \<Longrightarrow>
   UnmarshalSimulateResponse (sdk cc) (QueryValue res) = Inr simRes \<Longrightarrow>
   GasInfo simRes = None \<Longrightarrow>
   isl (calculateGas cc ctx txf msgs)"
  by (simp add: calculateGas_def)

text \<open>
  C8. A failing endpoint call and a response without gas info make \<open>calculateGas\<close> fail,
  as the two lemmas above say. \<open>calculateGas\<close> does not read the response code of the simulation: an answer with
  code 5 whose value decodes to gas info gives a gas amount and no error.
\<close>

theorem calculateGas_ignores_response_code:
  "ABCIQueryWithOptions (rpcClient (example_sender BroadcastTxSync 5 ok_response ok_response False))
     Background ''/cosmos.tx.v1beta1.Service/Simulate'' ''msg''
     = Inr \<lparr>Code = 5, Log = ''simulated'', QueryValue = ''gas_used:3''\<rparr>
   \<and> calculateGas (example_sender BroadcastTxSync 5 ok_response ok_response False) Background
        (baseTxf (example_sender BroadcastTxSync 5 ok_response ok_response False)) [''msg''] = Inr 4"
  by (simp add: calculateGas_def buildSimulationTx_def example_defs uint64_of_float64_def
      float64_of_uint64_def round_float64_def)

subsection \<open>A failing encoder in buildSimulationTx\<close>

text \<open>
  C10. When the unsigned transaction is built and the placeholder signature is set, and the
  encoder then fails, \<open>buildSimulationTx\<close> returns nil bytes and a nil error;
  \<open>calculateGas\<close> goes on to query the simulation endpoint with nil data, returns the
  error of that query if it fails, and returns a gas amount if the answer holds gas info.
\<close>

theorem buildSimulationTx_encoder_failure:
  assumes built: "BuildUnsignedTx (sdk cc) (baseTxf cc) msgs = Inr txb"
    and signed: "SetSignatures (sdk cc) txb
                   \<lparr>PubKey = [], DataSignMode = txf_signMode (baseTxf cc),
                    SigSequence = txf_sequence txf\<rparr> = Inr txb'"
    and enc: "TxEncoder (sdk cc) txb' = Inl err"
  shows "buildSimulationTx cc txf msgs = Inr []
       \<and> (\<forall>e. ABCIQueryWithOptions (rpcClient cc) ctx ''/cosmos.tx.v1beta1.Service/Simulate'' [] = Inl e
              \<longrightarrow> calculateGas cc ctx txf msgs = Inl e)
       \<and> (\<forall>res simRes gasInfo.
              ABCIQueryWithOptions (rpcClient cc) ctx ''/cosmos.tx.v1beta1.Service/Simulate'' [] = Inr res
              \<longrightarrow> UnmarshalSimulateResponse (sdk cc) (QueryValue res) = Inr simRes
              \<longrightarrow> GasInfo simRes = Some gasInfo
              \<longrightarrow> (\<exists>g. calculateGas cc ctx txf msgs = Inr g))"
proof -
  have b: "buildSimulationTx cc txf msgs = Inr []"
    using assms by (simp add: buildSimulationTx_def)
  then show ?thesis by (simp add: calculateGas_def)
qed

theorem buildSimulationTx_encoder_failure_witness:
  "TxEncoder (sdk (example_sender BroadcastTxSync 0 ok_response ok_response True)) ''msg''
     = Inl (External ''cannot encode'')
   \<and> buildSimulationTx (example_sender BroadcastTxSync 0 ok_response ok_response True)
        (baseTxf (example_sender BroadcastTxSync 0 ok_response ok_response True)) [''msg''] = Inr []
   \<and> (\<exists>g. calculateGas (example_sender BroadcastTxSync 0 ok_response ok_response True) Background
            (baseTxf (example_sender BroadcastTxSync 0 ok_response ok_response True)) [''msg''] = Inr g)"
proof -
  let ?cc = "example_sender BroadcastTxSync 0 ok_response ok_response True"
  have built: "BuildUnsignedTx (sdk ?cc) (baseTxf ?cc) [''msg''] = Inr ''msg''"
    by (simp add: example_defs)
  have sg: "SetSignatures (sdk ?cc) ''msg''
              \<lparr>PubKey = [], DataSignMode = txf_signMode (baseTxf ?cc),
               SigSequence = txf_sequence (baseTxf ?cc)\<rparr> = Inr ''msg''"
    by (simp add: example_defs)
  have enc: "TxEncoder (sdk ?cc) ''msg'' = Inl (External ''cannot encode'')"
    by (simp add: example_defs)
  have res: "ABCIQueryWithOptions (rpcClient ?cc) Background ''/cosmos.tx.v1beta1.Service/Simulate'' []
               = Inr \<lparr>Code = 0, Log = ''simulated'', QueryValue = ''gas_used:3''\<rparr>"
    by (simp add: example_defs)
  have dec: "UnmarshalSimulateResponse (sdk ?cc)
               (QueryValue \<lparr>Code = 0, Log = ''simulated'', QueryValue = ''gas_used:3''\<rparr>)
               = Inr \<lparr>GasInfo = Some \<lparr>GasUsed = 3\<rparr>\<rparr>"
    by (simp add: example_defs)
  have gi: "GasInfo \<lparr>GasInfo = Some \<lparr>GasUsed = 3\<rparr>\<rparr> = Some \<lparr>GasUsed = 3\<rparr>"
    by simp
  from buildSimulationTx_encoder_failure [OF built sg enc, of Background] res dec gi enc
  show ?thesis by blast
qed

section \<open>Properties of GetBalance\<close>

text \<open>
  C9. For an address that decodes to the bytes \<open>bz\<close>, \<open>GetBalance\<close> asks the reader for
  the key \<open>CreateAccountBalancesPrefix bz\<close> followed by the denom in the store \<open>bank\<close>:
  when the reader serves it, \<open>GetBalance\<close> returns exactly one value, with that key,
  and the height served, which is the requested height unless that was 0; when the reader
  fails, its error wrapped. For an address that does not decode, \<open>GetBalance\<close> returns
  the decoder's error and no value.
\<close>

theorem GetBalance_one_value:
  "(\<forall>bz. GetFromBech32 p addr chainPrefix = Inr bz \<longrightarrow>
      (case QueryTendermintProof (querier p) ctx inputHeight ''bank''
              (CreateAccountBalancesPrefix p bz @ denom) of
         Inl err \<Rightarrow>
           GetBalance p ctx inputHeight chainPrefix addr denom
             = Inl (Wrapf ''failed to query tendermint proof for balances: '' err)
       | Inr (v, h) \<Rightarrow>
           GetBalance p ctx inputHeight chainPrefix addr denom = Inr ([v], h)
           \<and> Key v = CreateAccountBalancesPrefix p bz @ denom
           \<and> (inputHeight \<noteq> 0 \<longrightarrow> h = inputHeight)))
   \<and> (\<forall>e. GetFromBech32 p addr chainPrefix = Inl e \<longrightarrow>
          GetBalance p ctx inputHeight chainPrefix addr denom = Inl e)"
  by (auto simp add: GetBalance_def QueryTendermintProof_def StoreKey_def Let_def
      split: sum.splits prod.splits)

lemma char_of_4: "char_of (Suc (Suc (Suc (Suc 0)))) = CHR 0x04"
  by code_simp

theorem GetBalance_one_value_witness:
  "GetFromBech32 example_proofer ''neutron1qqqsyqcvhcmcm'' ''neutron''
     = Inr [CHR 0x00, CHR 0x01, CHR 0x02, CHR 0x03]
   \<and> (\<exists>v. GetBalance example_proofer Background 100 ''neutron'' ''neutron1qqqsyqcvhcmcm'' ''token''
             = Inr ([v], 100)
          \<and> Key v = [CHR 0x02, CHR 0x04, CHR 0x00, CHR 0x01, CHR 0x02, CHR 0x03] @ ''token'')
   \<and> GetBalance example_proofer Background 100 ''neutron'' ''cosmos1qqqsyqcl5zwn0'' ''token''
       = Inl (External ''decoding bech32 failed'')"
proof -
  have d: "GetFromBech32 example_proofer ''neutron1qqqsyqcvhcmcm'' ''neutron''
             = Inr [CHR 0x00, CHR 0x01, CHR 0x02, CHR 0x03]"
    by (simp add: example_proofer_def)
  have q: "QueryTendermintProof (querier example_proofer) Background 100 ''bank''
             (CreateAccountBalancesPrefix example_proofer [CHR 0x00, CHR 0x01, CHR 0x02, CHR 0x03] @ ''token'')
           = Inr (\<lparr>StoragePrefix = ''bank'',
                   Key = [CHR 0x02, CHR 0x04, CHR 0x00, CHR 0x01, CHR 0x02, CHR 0x03] @ ''token'',
                   ProvenValue = ''17token'', Proofs = [''ics23:iavl'', ''ics23:simple'']\<rparr>, 100)"
    by (simp add: QueryTendermintProof_def example_proofer_def example_chain_def char_of_4)
  have f: "GetFromBech32 example_proofer ''cosmos1qqqsyqcl5zwn0'' ''neutron''
             = Inl (External ''decoding bech32 failed'')"
    by (simp add: example_proofer_def)
  have ok: "\<exists>v. GetBalance example_proofer Background 100 ''neutron'' ''neutron1qqqsyqcvhcmcm'' ''token''
             = Inr ([v], 100)
          \<and> Key v = [CHR 0x02, CHR 0x04, CHR 0x00, CHR 0x01, CHR 0x02, CHR 0x03] @ ''token''"
    using GetBalance_one_value [of example_proofer "''neutron1qqqsyqcvhcmcm''" "''neutron''"
        Background 100 "''token''"] d q
    by (simp add: example_proofer_def)
  have bad: "GetBalance example_proofer Background 100 ''neutron'' ''cosmos1qqqsyqcl5zwn0'' ''token''
       = Inl (External ''decoding bech32 failed'')"
    using GetBalance_one_value [of example_proofer "''cosmos1qqqsyqcl5zwn0''" "''neutron''"
        Background 100 "''token''"] f
    by simp
  from d ok bad show ?thesis by (simp only: simp_thms)
qed

end
